theory Spec2Isabelle
  imports Complex_Main "HOL-Library.Sublist"
begin

section \<open>Tabular data\<close>

text \<open>
  A cell of a table is a number, a text or null (pandas' NaN, Spark's and SQLite's NULL).
  Numbers are rationals: the median of an even number of values is the mean of the two
  middle ones, and rounding of binary floating point is not part of the model.
\<close>

datatype scalar = Number rat | Text string | Null

type_synonym Series = "scalar list"

text \<open>
  A pandas frame is the list of its labelled columns, in column order. Labels can repeat
  (\<open>rename\<close> can send two source labels to one), so the frame is an association list
  and not a map. Every column of a loaded frame has one value per row.
\<close>

type_synonym DataFrame = "(string \<times> Series) list"

definition labels :: "DataFrame \<Rightarrow> string list" where
  "labels df = map fst df"

definition nrows :: "DataFrame \<Rightarrow> nat" where
  "nrows df = (case df of [] \<Rightarrow> 0 | (l, vs) # rest \<Rightarrow> length vs)"

definition well_shaped :: "DataFrame \<Rightarrow> bool" where
  "well_shaped df = list_all (\<lambda>(l, vs). length vs = nrows df) df"

section \<open>Employee\_ETL.py: the CSV merge driver\<close>

text \<open>The exceptions the pandas calls of the driver raise.\<close>

datatype pd_error = KeyError string | TypeError | ValueError | InvalidIndexError

text \<open>The dictionary handed to \<open>df.rename(columns=...)\<close>, lines 14 to 20.\<close>

definition rename_columns :: "(string \<times> string) list" where
  "rename_columns =
     [(''empID'', ''Employee_ID''),
      (''id'', ''Employee_ID''),
      (''sal'', ''Salary''),
      (''salary'', ''Salary''),
      (''dept'', ''Department'')]"

definition rename_label :: "(string \<times> string) list \<Rightarrow> string \<Rightarrow> string" where
  "rename_label m l = (case map_of m l of None \<Rightarrow> l | Some l' \<Rightarrow> l')"

definition rename :: "(string \<times> string) list \<Rightarrow> DataFrame \<Rightarrow> DataFrame" where
  "rename m df = map (\<lambda>(l, vs). (rename_label m l, vs)) df"

text \<open>
  \<open>df[c]\<close>: a missing label raises KeyError, a label that occurs once gives that column
  as a Series, a repeated label gives a frame of all the columns that carry it.
\<close>

datatype selection = OneColumn Series | ManyColumns "Series list"

definition getitem :: "DataFrame \<Rightarrow> string \<Rightarrow> pd_error + selection" where
  "getitem df c =
     (case filter (\<lambda>(l, vs). l = c) df of
        [] \<Rightarrow> Inl (KeyError c)
      | [(l, vs)] \<Rightarrow> Inr (OneColumn vs)
      | hit # more \<Rightarrow> Inr (ManyColumns (map snd (hit # more))))"

text \<open>
  \<open>pd.to_numeric(arg, errors='coerce')\<close>: a number stays, a text becomes the number it
  parses to or null, null stays null. How pandas reads a text as a number is the
  parameter \<open>parse\<close>. A frame (from a repeated label) is refused with TypeError.
\<close>

fun coerce :: "(string \<Rightarrow> rat option) \<Rightarrow> scalar \<Rightarrow> scalar" where
  "coerce parse (Number r) = Number r"
| "coerce parse (Text s) = (case parse s of Some r \<Rightarrow> Number r | None \<Rightarrow> Null)"
| "coerce parse Null = Null"

definition to_numeric :: "(string \<Rightarrow> rat option) \<Rightarrow> selection \<Rightarrow> pd_error + Series" where
  "to_numeric parse arg =
     (case arg of
        OneColumn vs \<Rightarrow> Inr (map (coerce parse) vs)
      | ManyColumns cols \<Rightarrow> Inl TypeError)"

text \<open>\<open>df[c] = s\<close>: every column labelled \<open>c\<close> is replaced; a new label is appended.\<close>

definition setitem :: "DataFrame \<Rightarrow> string \<Rightarrow> Series \<Rightarrow> DataFrame" where
  "setitem df c s =
     (if c \<in> set (labels df) then map (\<lambda>(l, vs). if l = c then (l, s) else (l, vs)) df
      else df @ [(c, s)])"

text \<open>
  \<open>Series.median()\<close> skips nulls; of no numbers at all it is NaN, here \<open>Null\<close>.
\<close>

fun numbers :: "Series \<Rightarrow> rat list" where
  "numbers [] = []"
| "numbers (Number r # vs) = r # numbers vs"
| "numbers (v # vs) = numbers vs"

definition median :: "Series \<Rightarrow> scalar" where
  "median s =
     (let xs = sort (numbers s); n = length xs in
      if n = 0 then Null
      else if odd n then Number (xs ! (n div 2))
      else Number ((xs ! (n div 2 - 1) + xs ! (n div 2)) / 2))"

definition fillna :: "scalar \<Rightarrow> Series \<Rightarrow> Series" where
  "fillna v s = map (\<lambda>x. if x = Null then v else x) s"

text \<open>
  The body of the loop, lines 14 to 26, on one loaded frame. Line 24 fills the column
  through \<open>df['Salary']\<close> with \<open>inplace=True\<close>; the model takes the pandas behaviour
  the script was written for, where that write reaches the frame.
\<close>

definition standardize :: "(string \<Rightarrow> rat option) \<Rightarrow> DataFrame \<Rightarrow> pd_error + DataFrame" where
  "standardize parse df0 =
     (let df = rename rename_columns df0 in
      case getitem df ''Salary'' of
        Inl e \<Rightarrow> Inl e
      | Inr sel \<Rightarrow>
          (case to_numeric parse sel of
             Inl e \<Rightarrow> Inl e
           | Inr s \<Rightarrow> Inr (setitem df ''Salary'' (fillna (median s) s))))"

text \<open>The loop: the first frame that raises ends the script.\<close>

fun standardize_all :: "(string \<Rightarrow> rat option) \<Rightarrow> DataFrame list \<Rightarrow> pd_error + DataFrame list" where
  "standardize_all parse [] = Inr []"
| "standardize_all parse (df # dfs) =
     (case standardize parse df of
        Inl e \<Rightarrow> Inl e
      | Inr d \<Rightarrow>
          (case standardize_all parse dfs of
             Inl e \<Rightarrow> Inl e
           | Inr ds \<Rightarrow> Inr (d # ds)))"

text \<open>
  \<open>pd.concat(objs, ignore_index=True)\<close>. No frame at all is a ValueError. When all
  frames carry the same labels the columns are joined by position. Otherwise the result
  has every label once, in order of first appearance, a frame being padded with nulls
  where it lacks a label; a frame with a repeated label cannot be aligned that way and
  raises InvalidIndexError.
\<close>

fun unique :: "string list \<Rightarrow> string list \<Rightarrow> string list" where
  "unique seen [] = []"
| "unique seen (l # ls) =
     (if l \<in> set seen then unique seen ls else l # unique (l # seen) ls)"

definition column_or_nulls :: "string \<Rightarrow> DataFrame \<Rightarrow> Series" where
  "column_or_nulls c df =
     (case map_of df c of Some vs \<Rightarrow> vs | None \<Rightarrow> replicate (nrows df) Null)"

definition pd_concat :: "DataFrame list \<Rightarrow> pd_error + DataFrame" where
  "pd_concat objs =
     (case objs of
        [] \<Rightarrow> Inl ValueError
      | first # others \<Rightarrow>
          if list_all (\<lambda>df. labels df = labels first) others
          then Inr (map (\<lambda>p. (labels first ! p, concat (map (\<lambda>df. snd (df ! p)) objs)))
                      [0..<length first])
          else if list_ex (\<lambda>df. \<not> distinct (labels df)) objs then Inl InvalidIndexError
          else Inr (map (\<lambda>c. (c, concat (map (column_or_nulls c) objs)))
                      (unique [] (concat (map labels objs)))))"

text \<open>
  The script, from the frames \<open>pd.read_csv\<close> loaded (in the order \<open>glob\<close> found the
  files) to the frame handed to \<open>to_csv\<close>. \<open>Inl\<close> is an exception that ends the script
  before line 32, so nothing is written; \<open>Inr\<close> is the frame written.
\<close>

definition Employee_ETL :: "(string \<Rightarrow> rat option) \<Rightarrow> DataFrame list \<Rightarrow> pd_error + DataFrame" where
  "Employee_ETL parse dataframes =
     (case standardize_all parse dataframes of
        Inl e \<Rightarrow> Inl e
      | Inr standardized_dfs \<Rightarrow> pd_concat standardized_dfs)"

text \<open>
  What a run of the whole script leaves behind: the frame written to
  \<open>clean_employee_master.csv\<close> (line 32), the lines printed, the exception that ended it.
\<close>

record etl_outcome =
  written :: "DataFrame option"
  printed :: "string list"
  raised :: "pd_error option"

definition run_Employee_ETL :: "(string \<Rightarrow> rat option) \<Rightarrow> DataFrame list \<Rightarrow> etl_outcome" where
  "run_Employee_ETL parse dataframes =
     (case Employee_ETL parse dataframes of
        Inl e \<Rightarrow> \<lparr>written = None, printed = [], raised = Some e\<rparr>
      | Inr master_df \<Rightarrow>
          \<lparr>written = Some master_df, printed = ['' Employee master dataset saved!''],
           raised = None\<rparr>)"

text \<open>
  What the theorems about the driver speak of: the labels a loaded frame has after the
  rename, and the row of the merged frame at which the rows of the \<open>k\<close>-th file start.
\<close>

definition canonical_labels :: "DataFrame \<Rightarrow> string list" where
  "canonical_labels df = map (rename_label rename_columns) (labels df)"

definition row_offset :: "DataFrame list \<Rightarrow> nat \<Rightarrow> nat" where
  "row_offset dfs k = sum_list (map nrows (take k dfs))"

text \<open>
  A file with the three columns of the specification's example, in any order: an
  employee identifier named \<open>empID\<close> or \<open>id\<close>, a salary named \<open>sal\<close> or
  \<open>salary\<close>, and \<open>dept\<close>.
\<close>

definition recognized :: "DataFrame \<Rightarrow> bool" where
  "recognized df =
     (length (labels df) = 3 \<and>
      (''empID'' \<in> set (labels df) \<or> ''id'' \<in> set (labels df)) \<and>
      (''sal'' \<in> set (labels df) \<or> ''salary'' \<in> set (labels df)) \<and>
      ''dept'' \<in> set (labels df))"

text \<open>
  Three small branch files: the first with a blank salary, the second with texts in the
  salary column, one of them not a number, the third with no usable salary at all; and a
  reader of the decimal texts that occur in them.
\<close>

definition branch_a :: DataFrame where
  "branch_a =
     [(''empID'', [Number 1, Number 2, Number 3]),
      (''sal'', [Number 100, Null, Number 300]),
      (''dept'', [Text ''HR'', Text ''IT'', Null])]"

definition branch_b :: DataFrame where
  "branch_b =
     [(''id'', [Number 4, Number 5, Number 6, Number 7]),
      (''salary'', [Text ''1000'', Text ''n/a'', Text ''3000'', Text ''5000'']),
      (''dept'', [Text ''HR'', Text ''IT'', Null, Null])]"

definition branch_c :: DataFrame where
  "branch_c =
     [(''id'', [Number 8, Number 9]),
      (''sal'', [Text ''unknown'', Null]),
      (''dept'', [Text ''HR'', Text ''IT''])]"

definition parse_sample :: "string \<Rightarrow> rat option" where
  "parse_sample s =
     (if s = ''1000'' then Some 1000
      else if s = ''3000'' then Some 3000
      else if s = ''5000'' then Some 5000
      else None)"

section \<open>ErrorHandling.py: resilient calls on a Spark session\<close>

text \<open>
  The exceptions the script tells apart, each with its text (\<open>str(e)\<close>, which for the
  exceptions PySpark captures from the JVM is also \<open>e.desc\<close>). \<open>AnalysisException\<close>
  is a \<open>PySparkException\<close>; every class here derives from \<open>Exception\<close>.
  \<open>OtherException\<close> is any other class, with its name.
\<close>

datatype exn =
    Py4JJavaError string
  | AnalysisException string
  | PySparkException string
  | FileNotFoundError string
  | Exception string
  | OtherException string string

fun str :: "exn \<Rightarrow> string" where
  "str (Py4JJavaError m) = m"
| "str (AnalysisException m) = m"
| "str (PySparkException m) = m"
| "str (FileNotFoundError m) = m"
| "str (Exception m) = m"
| "str (OtherException cls m) = m"

fun is_PySparkException :: "exn \<Rightarrow> bool" where
  "is_PySparkException (AnalysisException m) = True"
| "is_PySparkException (PySparkException m) = True"
| "is_PySparkException e = False"

text \<open>A Spark dataset: its column names and its rows, one cell per column.\<close>

record dataset =
  columns :: "string list"
  rows :: "scalar list list"

text \<open>
  The calls of \<open>main\<close> on the session and its datasets that return nothing the script
  looks at, and what a run leaves behind, in order: lines printed, calls made, and the
  release of the session by \<open>spark.stop()\<close>.
\<close>

datatype call =
    PrintSchema | Show | SetCheckpointDir | Checkpoint | Count
  | CreateOrReplaceTempView | ShowResult

datatype event = Printed string | Called call | Stopped

text \<open>
  A session handle is what the cluster behind it answers: to \<open>spark.read.csv\<close>, to
  \<open>spark.sql\<close>, and whether one of the other calls raises. \<open>spark.stop()\<close> itself
  does not raise.
\<close>

record session =
  read_csv :: "string \<Rightarrow> exn + dataset"
  sql :: "string \<Rightarrow> exn + dataset"
  raises :: "call \<Rightarrow> exn option"

text \<open>The result of a run: the exit status of the process and its trace.\<close>

record run =
  exit_code :: nat
  trace :: "event list"

text \<open>
  \<open>create_spark_session\<close>, lines 11 to 26, from the outcome of \<open>getOrCreate()\<close>:
  the session, or the run that printed the failure and left through \<open>sys.exit(1)\<close>.
\<close>

definition create_spark_session :: "exn + session \<Rightarrow> run + session" where
  "create_spark_session getOrCreate =
     (case getOrCreate of
        Inr spark \<Rightarrow> Inr spark
      | Inl e \<Rightarrow>
          Inl \<lparr>exit_code = 1, trace = [Printed (''Failed to create Spark session: '' @ str e)]\<rparr>)"

text \<open>\<open>read_csv_handle_exceptions\<close>, lines 29 to 49.\<close>

definition read_csv_handle_exceptions :: "session \<Rightarrow> string \<Rightarrow> exn + dataset" where
  "read_csv_handle_exceptions spark file_path =
     (case read_csv spark file_path of
        Inr df \<Rightarrow> Inr df
      | Inl (Py4JJavaError m) \<Rightarrow>
          if sublist ''Cannot call methods on a stopped SparkContext'' m
          then Inl (Exception ''Spark session has been stopped. Please restart it.'')
          else Inl (Py4JJavaError m)
      | Inl (AnalysisException m) \<Rightarrow>
          if prefix (CHR 0x27 # ''Path does not exist:'') m
          then Inl (FileNotFoundError (''File path does not exist: '' @ file_path))
          else Inl (AnalysisException m)
      | Inl e \<Rightarrow> Inl e)"

text \<open>
  \<open>df.select(name)\<close> on a flat dataset: the named column when one column has that
  name; Spark refuses a name it cannot resolve and a name that several columns carry.
  \<open>distinct()\<close> drops repeated rows, null being a value like any other, and
  \<open>count()\<close> counts the rows.
\<close>

definition select :: "dataset \<Rightarrow> string \<Rightarrow> exn + dataset" where
  "select df name =
     (case filter (\<lambda>i. columns df ! i = name) [0..<length (columns df)] of
        [] \<Rightarrow> Inl (AnalysisException (''cannot resolve '' @ name))
      | [i] \<Rightarrow> Inr \<lparr>columns = [name], rows = map (\<lambda>r. [r ! i]) (rows df)\<rparr>
      | i # j # rest \<Rightarrow> Inl (AnalysisException (''Reference is ambiguous: '' @ name)))"


definition distinct_rows :: "dataset \<Rightarrow> dataset" where
  "distinct_rows df = df\<lparr>rows := remdups (rows df)\<rparr>"

definition count :: "dataset \<Rightarrow> nat" where
  "count df = length (rows df)"

text \<open>
  \<open>safe_distinct_count\<close>, lines 52 to 62: the value returned or the exception raised,
  and the lines printed.
\<close>

definition safe_distinct_count :: "dataset \<Rightarrow> string \<Rightarrow> (exn + nat) \<times> string list" where
  "safe_distinct_count df column_name =
     (if column_name \<in> set (columns df)
      then (case select df column_name of
              Inl e \<Rightarrow> (Inl e, [])
            | Inr selected \<Rightarrow> (Inr (count (distinct_rows selected)), []))
      else (Inr 0,
            [''Warning: Column '' @ [CHR 0x27] @ column_name @ [CHR 0x27]
               @ '' not found. Returning count=0.'']))"

text \<open>
  \<open>run_sql_query\<close>, lines 65 to 75: the dataset returned, \<open>None\<close>, or the exception
  that is not a \<open>PySparkException\<close> and is raised on; and the lines printed.
\<close>

definition run_sql_query :: "session \<Rightarrow> string \<Rightarrow> (exn + dataset option) \<times> string list" where
  "run_sql_query spark query =
     (case sql spark query of
        Inr result \<Rightarrow> (Inr (Some result), [])
      | Inl e \<Rightarrow>
          if is_PySparkException e then (Inr None, [''SQL error: '' @ str e])
          else (Inl e, []))"

text \<open>A natural number as Python prints it.\<close>

fun decimal :: "nat \<Rightarrow> string" where
  "decimal n =
     (if n < 10 then [char_of (48 + n)]
      else decimal (n div 10) @ [char_of (48 + n mod 10)])"

declare decimal.simps [simp del]

text \<open>
  The statements of \<open>main\<close> after the read, lines 99 to 127. Each takes the trace so far
  and gives the trace after it, with the exception it raised if it did; an exception
  ends the sequence, since nothing there catches it.
\<close>

type_synonym stmt = "event list \<Rightarrow> exn option \<times> event list"

definition perform :: "session \<Rightarrow> call \<Rightarrow> stmt" where
  "perform spark c t =
     (case raises spark c of
        Some e \<Rightarrow> (Some e, t)
      | None \<Rightarrow> (None, t @ [Called c]))"

definition report_unique_customers :: "dataset \<Rightarrow> stmt" where
  "report_unique_customers df t =
     (case safe_distinct_count df ''customer_id'' of
        (Inl e, out) \<Rightarrow> (Some e, t @ map Printed out)
      | (Inr unique_customer_count, out) \<Rightarrow>
          (None, t @ map Printed out
             @ [Printed (''Unique customers count: '' @ decimal unique_customer_count)]))"

definition report_checkpointed_count :: "session \<Rightarrow> dataset \<Rightarrow> stmt" where
  "report_checkpointed_count spark df t =
     (case perform spark Count t of
        (Some e, t') \<Rightarrow> (Some e, t')
      | (None, t') \<Rightarrow>
          (None, t' @ [Printed (''Checkpointed DataFrame count: '' @ decimal (count df))]))"

definition query_and_show :: "session \<Rightarrow> string \<Rightarrow> stmt" where
  "query_and_show spark query t =
     (case run_sql_query spark query of
        (Inl e, out) \<Rightarrow> (Some e, t @ map Printed out)
      | (Inr None, out) \<Rightarrow> (None, t @ map Printed out)
      | (Inr (Some result), out) \<Rightarrow> perform spark ShowResult (t @ map Printed out))"

definition query_only :: "session \<Rightarrow> string \<Rightarrow> stmt" where
  "query_only spark query t =
     (case run_sql_query spark query of
        (Inl e, out) \<Rightarrow> (Some e, t @ map Printed out)
      | (Inr result, out) \<Rightarrow> (None, t @ map Printed out))"

definition stop :: stmt where
  "stop t = (None, t @ [Stopped])"

fun run_stmts :: "stmt list \<Rightarrow> stmt" where
  "run_stmts [] t = (None, t)"
| "run_stmts (s # ss) t =
     (case s t of
        (Some e, t') \<Rightarrow> (Some e, t')
      | (None, t') \<Rightarrow> run_stmts ss t')"

definition after_read :: "session \<Rightarrow> dataset \<Rightarrow> stmt list" where
  "after_read spark df =
     [perform spark PrintSchema,
      perform spark Show,
      report_unique_customers df,
      perform spark SetCheckpointDir,
      perform spark Checkpoint,
      report_checkpointed_count spark df,
      perform spark CreateOrReplaceTempView,
      query_and_show spark ''SELECT * FROM customers WHERE age > 30'',
      query_only spark ''SELECT * FROM nonexistent_table'',
      stop]"

text \<open>
  \<open>main\<close>, lines 78 to 127, from the outcome of \<open>getOrCreate()\<close>. \<open>sys.exit(n)\<close>
  ends the process with status \<open>n\<close>, an exception nothing catches ends it with status
  1, and returning from \<open>main\<close> ends it with status 0.
\<close>

definition main :: "exn + session \<Rightarrow> run" where
  "main getOrCreate =
     (case create_spark_session getOrCreate of
        Inl exited \<Rightarrow> exited
      | Inr spark \<Rightarrow>
          (let file_path = ''hdfs:///user/data/customers.csv'' in
           case read_csv_handle_exceptions spark file_path of
             Inl (FileNotFoundError m) \<Rightarrow>
               \<lparr>exit_code = 2, trace = [Printed (''File error: '' @ m), Stopped]\<rparr>
           | Inl err \<Rightarrow>
               \<lparr>exit_code = 3, trace = [Printed (''Error reading CSV: '' @ str err), Stopped]\<rparr>
           | Inr df \<Rightarrow>
               (case run_stmts (after_read spark df) [] of
                  (Some e, t) \<Rightarrow> \<lparr>exit_code = 1, trace = t\<rparr>
                | (None, t) \<Rightarrow> \<lparr>exit_code = 0, trace = t\<rparr>)))"

text \<open>
  How the reader of lines 29 to 49 classifies a failure of \<open>spark.read.csv\<close>: by the
  class of the exception and a test on its text.
\<close>

fun session_already_stopped :: "exn \<Rightarrow> bool" where
  "session_already_stopped (Py4JJavaError m) =
     sublist ''Cannot call methods on a stopped SparkContext'' m"
| "session_already_stopped e = False"

fun path_does_not_exist :: "exn \<Rightarrow> bool" where
  "path_does_not_exist (AnalysisException m) = prefix (CHR 0x27 # ''Path does not exist:'') m"
| "path_does_not_exist e = False"







definition joined :: dataset where
  "joined =
     \<lparr>columns = [''customer_id'', ''customer_id''],
      rows = [[Number 1, Number 1], [Number 2, Null]]\<rparr>"

text \<open>
  Sample sessions: one where everything works (the second query of \<open>main\<close> names a
  table that does not exist), one that was stopped, one whose path is missing, one whose
  read fails otherwise, and one where the job behind \<open>df.show(5)\<close> fails.
\<close>

definition customers :: dataset where
  "customers =
     \<lparr>columns = [''customer_id'', ''age''],
      rows = [[Number 1, Number 40], [Null, Number 20], [Number 1, Number 31]]\<rparr>"

definition healthy_session :: session where
  "healthy_session =
     \<lparr>read_csv = (\<lambda>p. Inr customers),
      sql = (\<lambda>q. if q = ''SELECT * FROM nonexistent_table''
                 then Inl (AnalysisException ''Table or view not found: nonexistent_table'')
                 else Inr \<lparr>columns = [''customer_id'', ''age''],
                           rows = [[Number 1, Number 40], [Number 1, Number 31]]\<rparr>),
      raises = (\<lambda>c. None)\<rparr>"

definition stopped_session :: session where
  "stopped_session =
     healthy_session
       \<lparr>read_csv := (\<lambda>p. Inl (Py4JJavaError
           ''java.lang.IllegalStateException: Cannot call methods on a stopped SparkContext.''))\<rparr>"

definition missing_path_session :: session where
  "missing_path_session =
     healthy_session
       \<lparr>read_csv := (\<lambda>p. Inl (AnalysisException
           (CHR 0x27 # ''Path does not exist: '' @ p @ '';'' @ [CHR 0x27])))\<rparr>"

definition unreadable_session :: session where
  "unreadable_session =
     healthy_session\<lparr>read_csv := (\<lambda>p. Inl (OtherException ''ValueError'' ''bad schema''))\<rparr>"

definition failing_show_session :: session where
  "failing_show_session =
     healthy_session
       \<lparr>raises := (\<lambda>c. if c = Show then Some (Py4JJavaError ''Job aborted'') else None)\<rparr>"

section \<open>SQLite.py: the embedded-database example\<close>

text \<open>
  A table is its column names and its rows in the order they were inserted; the script
  declares neither types nor constraints on the columns. A database file is the list of
  its tables by name.
\<close>

datatype sqlite_error = OperationalError string

record table =
  cols :: "string list"
  contents :: "scalar list list"

type_synonym database = "(string \<times> table) list"

text \<open>\<open>CREATE TABLE IF NOT EXISTS name(column_names)\<close>.\<close>

definition create_table_if_not_exists :: "string \<Rightarrow> string list \<Rightarrow> database \<Rightarrow> database" where
  "create_table_if_not_exists name column_names db =
     (case map_of db name of
        Some t \<Rightarrow> db
      | None \<Rightarrow> db @ [(name, \<lparr>cols = column_names, contents = []\<rparr>)])"

text \<open>\<open>INSERT INTO name VALUES (...)\<close>: one value for every column of the table.\<close>

definition insert_values :: "string \<Rightarrow> scalar list \<Rightarrow> database \<Rightarrow> sqlite_error + database" where
  "insert_values name vs db =
     (case map_of db name of
        None \<Rightarrow> Inl (OperationalError (''no such table: '' @ name))
      | Some t \<Rightarrow>
          if length (cols t) \<noteq> length vs
          then Inl (OperationalError
                 (''table '' @ name @ '' has '' @ decimal (length (cols t)) @ '' columns but ''
                    @ decimal (length vs) @ '' values were supplied''))
          else Inr (map (\<lambda>(n, old).
                      if n = name then (n, old\<lparr>contents := contents old @ [vs]\<rparr>)
                      else (n, old)) db))"

text \<open>\<open>SELECT * FROM name\<close> followed by \<open>fetchall()\<close>.\<close>

definition select_all :: "string \<Rightarrow> database \<Rightarrow> sqlite_error + scalar list list" where
  "select_all name db =
     (case map_of db name of
        None \<Rightarrow> Inl (OperationalError (''no such table: '' @ name))
      | Some t \<Rightarrow> Inr (contents t))"

text \<open>
  The script, from the database file as it finds it to the file as it leaves it and the
  rows it prints.
\<close>

definition movie_row :: "scalar list" where
  "movie_row = [Text ''Title'', Number 2025, Number (19 / 2)]"

definition SQLite :: "database \<Rightarrow> sqlite_error + database \<times> scalar list list" where
  "SQLite db0 =
     (let db1 = create_table_if_not_exists ''movie'' [''title'', ''year'', ''score''] db0 in
      case insert_values ''movie'' movie_row db1 of
        Inl e \<Rightarrow> Inl e
      | Inr db2 \<Rightarrow>
          (case select_all ''movie'' db2 of
             Inl e \<Rightarrow> Inl e
           | Inr fetched \<Rightarrow> Inr (db2, fetched)))"



definition two_columns :: database where
  "two_columns = [(''movie'', \<lparr>cols = [''title'', ''year''], contents = []\<rparr>)]"

section \<open>Properties of the merge driver\<close>

subsection \<open>Columns of a frame\<close>

lemma filter_label_unique:
  "distinct (map fst df) \<Longrightarrow> (c, vs) \<in> set df \<Longrightarrow> filter (\<lambda>(l, vs). l = c) df = [(c, vs)]"
proof (induction df)
  case Nil
  then show ?case by simp
next
  case (Cons a df)
  obtain l ws where a: "a = (l, ws)" by (cases a)
  show ?case
  proof (cases "l = c")
    case True
    with Cons.prems a have "c \<notin> fst ` set df" by auto
    then have "filter (\<lambda>(l, vs). l = c) df = []"
      by (auto simp: filter_empty_conv image_iff)
    moreover from Cons.prems a True \<open>c \<notin> fst ` set df\<close> have "ws = vs"
      by (auto simp: image_iff)
    ultimately show ?thesis using a True by simp
  next
    case False
    with Cons a show ?thesis by auto
  qed
qed

lemma getitem_unique:
  "distinct (labels df) \<Longrightarrow> (c, vs) \<in> set df \<Longrightarrow> getitem df c = Inr (OneColumn vs)"
  by (simp add: getitem_def labels_def filter_label_unique)

lemma nth_concat_offset:
  "k < length xss \<Longrightarrow> i < length (xss ! k) \<Longrightarrow>
     sum_list (map length (take k xss)) + i < length (concat xss) \<and>
     concat xss ! (sum_list (map length (take k xss)) + i) = xss ! k ! i"
proof (induction xss arbitrary: k)
  case Nil
  then show ?case by simp
next
  case (Cons xs xss)
  show ?case
  proof (cases k)
    case 0
    with Cons.prems show ?thesis by (simp add: nth_append)
  next
    case (Suc j)
    with Cons.prems Cons.IH [of j] show ?thesis by (simp add: nth_append)
  qed
qed

lemma labels_rename: "labels (rename rename_columns df) = canonical_labels df"
  by (simp add: labels_def rename_def canonical_labels_def case_prod_beta)

lemma renamed_member:
  "(l, vs) \<in> set df \<Longrightarrow> (rename_label m l, vs) \<in> set (rename m df)"
  by (force simp: rename_def)

lemma labels_setitem: "c \<in> set (labels df) \<Longrightarrow> labels (setitem df c s) = labels df"
  by (auto simp: setitem_def labels_def split: prod.splits)

lemma map_of_replace:
  "c \<in> fst ` set df \<Longrightarrow>
     map_of (map (\<lambda>(l, vs). if l = c then (l, s) else (l, vs)) df) c = Some s"
  by (induction df) auto

lemma column_setitem:
  "c \<in> set (labels df) \<Longrightarrow> column_or_nulls c (setitem df c s) = s"
  by (simp add: column_or_nulls_def setitem_def labels_def map_of_replace)

lemma standardize_ok:
  assumes "distinct (canonical_labels df)" and "(l, src) \<in> set df"
    and "rename_label rename_columns l = ''Salary''"
  shows "standardize parse df =
           Inr (setitem (rename rename_columns df) ''Salary''
                  (fillna (median (map (coerce parse) src)) (map (coerce parse) src)))"
proof -
  from assms(2,3) have "(''Salary'', src) \<in> set (rename rename_columns df)"
    using renamed_member [of l src df rename_columns] by simp
  with assms(1) have "getitem (rename rename_columns df) ''Salary'' = Inr (OneColumn src)"
    by (simp add: getitem_unique labels_rename)
  then show ?thesis by (simp add: standardize_def to_numeric_def)
qed

lemma salary_source:
  assumes "''Salary'' \<in> set (canonical_labels df)"
  obtains l src where "(l, src) \<in> set df" and "rename_label rename_columns l = ''Salary''"
  using assms by (auto simp: canonical_labels_def labels_def)

lemma standardize_labels:
  assumes "distinct (canonical_labels df)" and "''Salary'' \<in> set (canonical_labels df)"
  shows "\<exists>d. standardize parse df = Inr d \<and> labels d = canonical_labels df"
proof -
  from assms(2) obtain l src where s: "(l, src) \<in> set df" "rename_label rename_columns l = ''Salary''"
    by (rule salary_source)
  from assms(2) have "''Salary'' \<in> set (labels (rename rename_columns df))"
    by (simp add: labels_rename)
  then show ?thesis
    using standardize_ok [OF assms(1) s, of parse] by (simp add: labels_setitem labels_rename)
qed

lemma standardize_column:
  assumes "distinct (canonical_labels df)" and "(l, src) \<in> set df"
    and "rename_label rename_columns l = ''Salary''"
  shows "column_or_nulls ''Salary'' (projr (standardize parse df)) =
           fillna (median (map (coerce parse) src)) (map (coerce parse) src)"
proof -
  have "''Salary'' \<in> set (labels (rename rename_columns df))"
    using renamed_member [OF assms(2), of rename_columns] assms(3) by (force simp: labels_def)
  then show ?thesis
    using standardize_ok [OF assms, of parse] by (simp add: column_setitem)
qed

lemma standardize_all_ok:
  assumes "list_all (\<lambda>df. distinct (canonical_labels df)) dfs"
    and "list_all (\<lambda>df. ''Salary'' \<in> set (canonical_labels df)) dfs"
  shows "standardize_all parse dfs = Inr (map (\<lambda>df. projr (standardize parse df)) dfs)"
  using assms
proof (induction dfs)
  case Nil
  then show ?case by simp
next
  case (Cons df dfs)
  from Cons.prems obtain d where "standardize parse df = Inr d"
    using standardize_labels [of df parse] by auto
  with Cons show ?case by simp
qed

lemma set_unique: "set (unique seen ls) = set ls - set seen"
  by (induction seen ls rule: unique.induct) auto

lemma distinct_unique: "distinct (unique seen ls)"
  by (induction seen ls rule: unique.induct) (auto simp: set_unique)

lemma column_at:
  assumes "distinct (labels df)" and "p < length df"
  shows "snd (df ! p) = column_or_nulls (labels df ! p) df"
proof -
  from assms(2) have "(fst (df ! p), snd (df ! p)) \<in> set df" by simp
  with assms(1) have "map_of df (fst (df ! p)) = Some (snd (df ! p))"
    by (simp add: labels_def)
  with assms(2) show ?thesis by (simp add: column_or_nulls_def labels_def)
qed

lemma pd_concat_distinct:
  assumes "objs \<noteq> []" and "list_all (\<lambda>df. distinct (labels df)) objs"
  shows "\<exists>cols. pd_concat objs = Inr (map (\<lambda>c. (c, concat (map (column_or_nulls c) objs))) cols)
           \<and> distinct cols \<and> set cols = (\<Union>df\<in>set objs. set (labels df))"
proof -
  from assms(1) obtain first others where objs: "objs = first # others"
    by (cases objs) auto
  show ?thesis
  proof (cases "list_all (\<lambda>df. labels df = labels first) others")
    case True
    then have same: "\<And>df. df \<in> set objs \<Longrightarrow> labels df = labels first"
      by (auto simp: objs list_all_iff)
    have len: "\<And>df. df \<in> set objs \<Longrightarrow> length df = length first"
      using same by (metis labels_def length_map)
    have "map (\<lambda>p. (labels first ! p, concat (map (\<lambda>df. snd (df ! p)) objs))) [0..<length first]
        = map (\<lambda>p. (labels first ! p, concat (map (column_or_nulls (labels first ! p)) objs)))
            [0..<length first]"
    proof (rule map_cong [OF refl])
      fix p assume "p \<in> set [0..<length first]"
      then have p: "p < length first" by simp
      have "map (\<lambda>df. snd (df ! p)) objs = map (column_or_nulls (labels first ! p)) objs"
      proof (rule map_cong [OF refl])
        fix df assume df: "df \<in> set objs"
        with assms(2) have "distinct (labels df)" by (simp add: list_all_iff)
        moreover from df p len have "p < length df" by simp
        ultimately show "snd (df ! p) = column_or_nulls (labels first ! p) df"
          using column_at [of df p] same [OF df] by simp
      qed
      then show "(labels first ! p, concat (map (\<lambda>df. snd (df ! p)) objs))
        = (labels first ! p, concat (map (column_or_nulls (labels first ! p)) objs))"
        by (simp only:)
    qed
    also have "\<dots> = map (\<lambda>c. (c, concat (map (column_or_nulls c) objs))) (labels first)"
    proof -
      have "map (\<lambda>c. (c, concat (map (column_or_nulls c) objs))) (labels first)
        = map (\<lambda>c. (c, concat (map (column_or_nulls c) objs)))
            (map (\<lambda>p. labels first ! p) [0..<length (labels first)])"
        by (simp only: map_nth)
      then show ?thesis by (simp add: labels_def comp_def)
    qed
    finally have "pd_concat objs
        = Inr (map (\<lambda>c. (c, concat (map (column_or_nulls c) objs))) (labels first))"
      using True by (simp add: pd_concat_def objs)
    moreover from assms(2) have "distinct (labels first)" by (simp add: objs)
    moreover have "set (labels first) = (\<Union>df\<in>set objs. set (labels df))"
    proof -
      have "first \<in> set objs" by (simp add: objs)
      moreover have "\<And>df. df \<in> set objs \<Longrightarrow> set (labels df) = set (labels first)"
        using same by simp
      ultimately show ?thesis by blast
    qed
    ultimately show ?thesis by (intro exI conjI)
  next
    case False
    from assms(2) have "\<not> list_ex (\<lambda>df. \<not> distinct (labels df)) objs"
      by (simp add: list_all_iff list_ex_iff)
    with False have "pd_concat objs
        = Inr (map (\<lambda>c. (c, concat (map (column_or_nulls c) objs)))
                 (unique [] (concat (map labels objs))))"
      by (simp add: pd_concat_def objs)
    moreover have "set (unique [] (concat (map labels objs))) = (\<Union>df\<in>set objs. set (labels df))"
      by (simp add: set_unique)
    ultimately show ?thesis using distinct_unique by (intro exI conjI)
  qed
qed

subsection \<open>The merged frame\<close>

lemma merged_salary:
  assumes "dfs \<noteq> []"
    and "list_all (\<lambda>df. distinct (canonical_labels df)) dfs"
    and "list_all (\<lambda>df. ''Salary'' \<in> set (canonical_labels df)) dfs"
  shows "\<exists>out. Employee_ETL parse dfs = Inr out \<and> distinct (labels out) \<and>
           set (labels out) = (\<Union>df\<in>set dfs. set (canonical_labels df)) \<and>
           getitem out ''Salary'' = Inr (OneColumn (concat (map
             (\<lambda>df. column_or_nulls ''Salary'' (projr (standardize parse df))) dfs)))"
proof -
  let ?std = "\<lambda>df. projr (standardize parse df)"
  let ?objs = "map ?std dfs"
  have lab: "labels (?std df) = canonical_labels df" if "df \<in> set dfs" for df
    using that assms(2,3) standardize_labels [of df parse] by (auto simp: list_all_iff)
  have all: "standardize_all parse dfs = Inr ?objs"
    using assms(2,3) by (rule standardize_all_ok)
  have "?objs \<noteq> []" using assms(1) by simp
  moreover have "list_all (\<lambda>df. distinct (labels df)) ?objs"
    using assms(2) lab by (simp add: list_all_iff)
  ultimately obtain cols where
    out: "pd_concat ?objs = Inr (map (\<lambda>c. (c, concat (map (column_or_nulls c) ?objs))) cols)"
    and dist: "distinct cols"
    and cols: "set cols = (\<Union>df\<in>set ?objs. set (labels df))"
    using pd_concat_distinct [of ?objs] by blast
  let ?out = "map (\<lambda>c. (c, concat (map (column_or_nulls c) ?objs))) cols"
  have labels_out: "labels ?out = cols" by (simp add: labels_def comp_def)
  have set_cols: "set cols = (\<Union>df\<in>set dfs. set (canonical_labels df))"
    using cols lab by simp
  from assms(1) obtain df where "df \<in> set dfs" by (cases dfs) auto
  with assms(3) set_cols have "''Salary'' \<in> set cols" by (auto simp: list_all_iff)
  then have "(''Salary'', concat (map (column_or_nulls ''Salary'') ?objs)) \<in> set ?out"
    by (simp add: image_iff)
  with dist labels_out
  have "getitem ?out ''Salary'' = Inr (OneColumn (concat (map (column_or_nulls ''Salary'') ?objs)))"
    using getitem_unique [of ?out] by simp
  moreover have "Employee_ETL parse dfs = Inr ?out"
    by (simp add: Employee_ETL_def all out)
  ultimately show ?thesis
    using dist labels_out set_cols by (simp add: comp_def)
qed

lemma well_shaped_length: "well_shaped df \<Longrightarrow> (l, vs) \<in> set df \<Longrightarrow> length vs = nrows df"
  by (auto simp: well_shaped_def list_all_iff)

lemma salary_column_length:
  assumes "well_shaped df" and "distinct (canonical_labels df)"
    and "''Salary'' \<in> set (canonical_labels df)"
  shows "length (column_or_nulls ''Salary'' (projr (standardize parse df))) = nrows df"
proof -
  from assms(3) obtain l src where s: "(l, src) \<in> set df" "rename_label rename_columns l = ''Salary''"
    by (rule salary_source)
  show ?thesis
    using standardize_column [OF assms(2) s, of parse] well_shaped_length [OF assms(1) s(1)]
    by (simp add: fillna_def)
qed

lemma merged_rows:
  assumes "list_all well_shaped dfs"
    and "list_all (\<lambda>df. distinct (canonical_labels df)) dfs"
    and "list_all (\<lambda>df. ''Salary'' \<in> set (canonical_labels df)) dfs"
    and "k < length dfs" and "(l, src) \<in> set (dfs ! k)"
    and "rename_label rename_columns l = ''Salary''"
    and "i < length src"
  shows "\<exists>out col. Employee_ETL parse dfs = Inr out \<and>
           getitem out ''Salary'' = Inr (OneColumn col) \<and>
           row_offset dfs k + i < length col \<and>
           col ! (row_offset dfs k + i) =
             fillna (median (map (coerce parse) src)) (map (coerce parse) src) ! i"
proof -
  let ?f = "\<lambda>df. column_or_nulls ''Salary'' (projr (standardize parse df))"
  from assms(4) have ne: "dfs \<noteq> []" by auto
  from merged_salary [OF ne assms(2,3), of parse] obtain out where
    out: "Employee_ETL parse dfs = Inr out"
    and col: "getitem out ''Salary'' = Inr (OneColumn (concat (map ?f dfs)))"
    by blast
  have len: "length (?f df) = nrows df" if "df \<in> set dfs" for df
    using that assms(1,2,3) salary_column_length [of df parse] by (simp add: list_all_iff)
  have "map length (take k (map ?f dfs)) = map nrows (take k dfs)"
    using len by (auto simp: take_map dest: in_set_takeD)
  then have off: "sum_list (map length (take k (map ?f dfs))) = row_offset dfs k"
    by (simp add: row_offset_def)
  from assms(4) have k: "dfs ! k \<in> set dfs" by simp
  with assms(2) have d: "distinct (canonical_labels (dfs ! k))" by (simp add: list_all_iff)
  have fk: "?f (dfs ! k) = fillna (median (map (coerce parse) src)) (map (coerce parse) src)"
    using standardize_column [OF d assms(5,6)] .
  with assms(4,7) have "i < length (map ?f dfs ! k)" by (simp add: fillna_def)
  with assms(4) have "sum_list (map length (take k (map ?f dfs))) + i < length (concat (map ?f dfs))
      \<and> concat (map ?f dfs) ! (sum_list (map length (take k (map ?f dfs))) + i) = map ?f dfs ! k ! i"
    using nth_concat_offset [of k "map ?f dfs" i] by simp
  with off fk assms(4) out col show ?thesis by simp
qed

subsection \<open>Imputation of missing salaries\<close>


lemma numbers_all_null: "list_all (\<lambda>v. v = Null) s \<Longrightarrow> numbers s = []"
  by (induction s) auto

lemma median_all_null: "list_all (\<lambda>v. v = Null) s \<Longrightarrow> median s = Null"
  by (simp add: median_def numbers_all_null)



lemma fillna_null: "fillna Null s = s"
  by (simp add: fillna_def map_idI)

text \<open>
  C10. Take a file all of whose salary values are missing or not numeric, among files
  whose renamed labels are distinct and include \<open>Salary\<close>. The median of its salaries
  is undefined (null), the driver still completes, and every row of that file has a null
  salary in the merged frame: filling with the undefined median changes nothing.
\<close>

theorem all_missing_salaries_stay_null:
  assumes "list_all well_shaped dfs"
    and "list_all (\<lambda>df. distinct (canonical_labels df)) dfs"
    and "list_all (\<lambda>df. ''Salary'' \<in> set (canonical_labels df)) dfs"
    and "k < length dfs" and "(l, src) \<in> set (dfs ! k)"
    and "rename_label rename_columns l = ''Salary''"
    and "list_all (\<lambda>v. coerce parse v = Null) src"
    and "i < length src"
  shows "median (map (coerce parse) src) = Null \<and>
         (\<exists>out col. Employee_ETL parse dfs = Inr out \<and>
           getitem out ''Salary'' = Inr (OneColumn col) \<and>
           row_offset dfs k + i < length col \<and>
           col ! (row_offset dfs k + i) = Null)"
proof -
  from assms(7) have nulls: "list_all (\<lambda>v. v = Null) (map (coerce parse) src)"
    by (simp add: list_all_iff)
  then have m: "median (map (coerce parse) src) = Null"
    by (rule median_all_null)
  from nulls assms(8) have "map (coerce parse) src ! i = Null"
    by (simp add: list_all_length)
  with m have "fillna (median (map (coerce parse) src)) (map (coerce parse) src) ! i = Null"
    by (simp add: fillna_null)
  with m merged_rows [OF assms(1-6,8), of parse] show ?thesis by simp
qed

theorem all_missing_salaries_stay_null_witness:
  "\<exists>out col. Employee_ETL parse_sample [branch_a, branch_c] = Inr out \<and>
     getitem out ''Salary'' = Inr (OneColumn col) \<and> col ! 3 = Null"
proof -
  let ?dfs = "[branch_a, branch_c]"
  have ws: "list_all well_shaped ?dfs"
    by (simp add: well_shaped_def nrows_def branch_a_def branch_c_def)
  have di: "list_all (\<lambda>df. distinct (canonical_labels df)) ?dfs"
    by (simp add: canonical_labels_def labels_def rename_label_def rename_columns_def
        branch_a_def branch_c_def)
  have sa: "list_all (\<lambda>df. ''Salary'' \<in> set (canonical_labels df)) ?dfs"
    by (simp add: canonical_labels_def labels_def rename_label_def rename_columns_def
        branch_a_def branch_c_def)
  have r: "rename_label rename_columns ''sal'' = ''Salary''"
    by (simp add: rename_label_def rename_columns_def)
  have n: "list_all (\<lambda>v. coerce parse_sample v = Null) [Text ''unknown'', Null]"
    by (simp add: parse_sample_def)
  have o: "row_offset ?dfs 1 = 3"
    by (simp add: row_offset_def nrows_def branch_a_def)
  have k: "1 < length ?dfs" by simp
  have mem: "(''sal'', [Text ''unknown'', Null]) \<in> set (?dfs ! 1)"
    by (simp add: branch_c_def)
  have i: "0 < length [Text ''unknown'', Null]" by simp
  from all_missing_salaries_stay_null [OF ws di sa k mem r n i] o
  show ?thesis by auto
qed

subsection \<open>Canonical column names\<close>

lemma same_union: "A \<noteq> {} \<Longrightarrow> (\<And>x. x \<in> A \<Longrightarrow> f x = C) \<Longrightarrow> (\<Union>x\<in>A. f x) = C"
  by auto

lemma recognized_canonical:
  assumes "recognized df"
  shows "distinct (canonical_labels df) \<and>
         set (canonical_labels df) = {''Employee_ID'', ''Salary'', ''Department''}"
proof -
  let ?xs = "canonical_labels df"
  let ?c = "{''Employee_ID'', ''Salary'', ''Department''}"
  have r: "rename_label rename_columns ''empID'' = ''Employee_ID''"
    "rename_label rename_columns ''id'' = ''Employee_ID''"
    "rename_label rename_columns ''sal'' = ''Salary''"
    "rename_label rename_columns ''salary'' = ''Salary''"
    "rename_label rename_columns ''dept'' = ''Department''"
    by (simp_all add: rename_label_def rename_columns_def)
  from assms have len: "length ?xs = 3"
    by (simp add: recognized_def canonical_labels_def)
  have mem: "rename_label rename_columns l \<in> set ?xs" if "l \<in> set (labels df)" for l
    using that by (simp add: canonical_labels_def)
  from assms have "''empID'' \<in> set (labels df) \<or> ''id'' \<in> set (labels df)"
    by (simp add: recognized_def)
  then have "''Employee_ID'' \<in> set ?xs"
    using mem [of "''empID''"] mem [of "''id''"] r(1,2) by (elim disjE) simp_all
  moreover from assms have "''sal'' \<in> set (labels df) \<or> ''salary'' \<in> set (labels df)"
    by (simp add: recognized_def)
  then have "''Salary'' \<in> set ?xs"
    using mem [of "''sal''"] mem [of "''salary''"] r(3,4) by (elim disjE) simp_all
  moreover from assms have "''dept'' \<in> set (labels df)"
    by (simp add: recognized_def)
  then have "''Department'' \<in> set ?xs"
    using mem [of "''dept''"] r(5) by simp
  ultimately have sub: "?c \<subseteq> set ?xs" by simp
  have c3: "card ?c = 3" by simp
  have "card (set ?xs) \<le> 3" using len card_length [of ?xs] by simp
  with c3 have le: "card (set ?xs) \<le> card ?c" by simp
  have eq: "?c = set ?xs"
    using sub le by (intro card_seteq) simp_all
  then have "card (set ?xs) = length ?xs" using c3 len by simp
  then have "distinct ?xs" by (rule card_distinct)
  with eq show ?thesis by simp
qed

text \<open>
  C5. Take at least one input file, each with an employee identifier column named
  \<open>empID\<close> or \<open>id\<close>, a salary column named \<open>sal\<close> or \<open>salary\<close> and a
  \<open>dept\<close> column. The loop completes and gives every frame the columns
  \<open>Employee_ID\<close>, \<open>Salary\<close> and \<open>Department\<close>, each once, before the
  concatenation; the merged frame has exactly these columns, so a single \<open>Salary\<close>
  column.
\<close>

theorem synonyms_give_canonical_columns:
  assumes "dfs \<noteq> []" and "list_all recognized dfs"
  shows "\<exists>sdfs out. standardize_all parse dfs = Inr sdfs \<and>
           list_all (\<lambda>d. distinct (labels d) \<and>
             set (labels d) = {''Employee_ID'', ''Salary'', ''Department''}) sdfs \<and>
           Employee_ETL parse dfs = Inr out \<and>
           distinct (labels out) \<and>
           set (labels out) = {''Employee_ID'', ''Salary'', ''Department''} \<and>
           length (filter (\<lambda>c. c = ''Salary'') (labels out)) = 1"
proof -
  define C where "C = {''Employee_ID'', ''Salary'', ''Department''}"
  have sal: "''Salary'' \<in> C" by (simp add: C_def)
  have can_d: "distinct (canonical_labels df)" if "df \<in> set dfs" for df
    using that assms(2) recognized_canonical [of df] by (simp add: list_all_iff)
  have can_s: "set (canonical_labels df) = C" if "df \<in> set dfs" for df
    using that assms(2) recognized_canonical [of df] by (simp add: list_all_iff C_def)
  have di: "list_all (\<lambda>df. distinct (canonical_labels df)) dfs"
    using can_d by (simp add: list_all_iff)
  have sa: "list_all (\<lambda>df. ''Salary'' \<in> set (canonical_labels df)) dfs"
    using can_s sal by (simp add: list_all_iff)
  let ?sdfs = "map (\<lambda>df. projr (standardize parse df)) dfs"
  have all: "standardize_all parse dfs = Inr ?sdfs"
    using di sa by (rule standardize_all_ok)
  have lab: "labels (projr (standardize parse df)) = canonical_labels df"
    if "df \<in> set dfs" for df
  proof -
    from that can_s sal have "''Salary'' \<in> set (canonical_labels df)" by simp
    with can_d [OF that] obtain d where "standardize parse df = Inr d"
      "labels d = canonical_labels df"
      using standardize_labels [of df parse] by blast
    then show ?thesis by simp
  qed
  have each: "list_all (\<lambda>d. distinct (labels d) \<and> set (labels d) = C) ?sdfs"
    using can_d can_s lab by (simp add: list_all_iff)
  from merged_salary [OF assms(1) di sa, of parse] obtain out where
    out: "Employee_ETL parse dfs = Inr out" "distinct (labels out)"
    "set (labels out) = (\<Union>df\<in>set dfs. set (canonical_labels df))"
    by blast
  from assms(1) have "set dfs \<noteq> {}" by simp
  then have "(\<Union>df\<in>set dfs. set (canonical_labels df)) = C"
    using can_s by (rule same_union)
  with out(3) have s: "set (labels out) = C" by simp
  with sal have "''Salary'' \<in> set (labels out)" by simp
  with out(2) have one: "length (filter (\<lambda>c. c = ''Salary'') (labels out)) = 1"
    by (simp add: distinct_length_filter)
  show ?thesis
    using all each out(1,2) s one unfolding C_def
    by (intro exI [of _ ?sdfs] exI [of _ out] conjI)
qed

theorem synonyms_give_canonical_columns_witness:
  "\<exists>sdfs out. standardize_all parse_sample [branch_a, branch_b] = Inr sdfs \<and>
     list_all (\<lambda>d. distinct (labels d) \<and>
       set (labels d) = {''Employee_ID'', ''Salary'', ''Department''}) sdfs \<and>
     Employee_ETL parse_sample [branch_a, branch_b] = Inr out \<and>
     distinct (labels out) \<and>
     set (labels out) = {''Employee_ID'', ''Salary'', ''Department''} \<and>
     length (filter (\<lambda>c. c = ''Salary'') (labels out)) = 1"
proof -
  have ne: "[branch_a, branch_b] \<noteq> []" by simp
  have "list_all recognized [branch_a, branch_b]"
    by (simp add: recognized_def labels_def branch_a_def branch_b_def)
  with ne show ?thesis
    by (rule synonyms_give_canonical_columns)
qed

subsection \<open>No input file\<close>

text \<open>
  C7. When the pattern matches no file the script ends with the ValueError of
  \<open>pd.concat\<close>, whatever the reader of numbers is, before anything is written or
  printed. The outcome is a function of the input, the same on every run.
\<close>

theorem no_files_fails_before_writing:
  "run_Employee_ETL parse [] = \<lparr>written = None, printed = [], raised = Some ValueError\<rparr>"
  by (simp add: run_Employee_ETL_def Employee_ETL_def pd_concat_def)

section \<open>Properties of the error-handling script\<close>

subsection \<open>The reader and the query runner\<close>

text \<open>
  C3. When \<open>spark.read.csv\<close> fails, the reader raises the plain \<open>Exception\<close> with
  the text "Spark session has been stopped. Please restart it." if the failure is
  classified as a stopped session, a \<open>FileNotFoundError\<close> naming the path it was
  given if the failure is classified as a missing path, and the failure itself, unchanged,
  in every other case. The two classes exclude each other, so each translation happens
  in exactly its own class.
\<close>

theorem reader_translates_classified_failures:
  assumes "read_csv spark file_path = Inl e"
  shows "read_csv_handle_exceptions spark file_path =
           (if session_already_stopped e
            then Inl (Exception ''Spark session has been stopped. Please restart it.'')
            else if path_does_not_exist e
            then Inl (FileNotFoundError (''File path does not exist: '' @ file_path))
            else Inl e) \<and>
         \<not> (session_already_stopped e \<and> path_does_not_exist e)"
  using assms by (cases e) (simp_all add: read_csv_handle_exceptions_def)

theorem reader_translates_classified_failures_witness:
  "read_csv_handle_exceptions stopped_session ''hdfs:///user/data/customers.csv'' =
     Inl (Exception ''Spark session has been stopped. Please restart it.'') \<and>
   read_csv_handle_exceptions missing_path_session ''hdfs:///user/data/customers.csv'' =
     Inl (FileNotFoundError ''File path does not exist: hdfs:///user/data/customers.csv'') \<and>
   read_csv_handle_exceptions unreadable_session ''hdfs:///user/data/customers.csv'' =
     Inl (OtherException ''ValueError'' ''bad schema'')"
proof -
  let ?p = "''hdfs:///user/data/customers.csv''"
  have a: "read_csv stopped_session ?p = Inl (Py4JJavaError
      ''java.lang.IllegalStateException: Cannot call methods on a stopped SparkContext.'')"
    by (simp add: stopped_session_def)
  have b: "read_csv missing_path_session ?p = Inl (AnalysisException
      (CHR 0x27 # ''Path does not exist: '' @ ?p @ '';'' @ [CHR 0x27]))"
    by (simp add: missing_path_session_def)
  have c: "read_csv unreadable_session ?p = Inl (OtherException ''ValueError'' ''bad schema'')"
    by (simp add: unreadable_session_def)
  have s: "sublist ''Cannot call methods on a stopped SparkContext''
      ''java.lang.IllegalStateException: Cannot call methods on a stopped SparkContext.''"
    by code_simp
  show ?thesis
    using reader_translates_classified_failures [OF a]
      reader_translates_classified_failures [OF b]
      reader_translates_classified_failures [OF c] s
    by simp
qed



subsection \<open>The safe aggregator\<close>








text \<open>
  A name that two columns carry passes the test of line 56 and is then refused by
  \<open>select\<close>: the exception leaves \<open>safe_distinct_count\<close>.
\<close>

lemma safe_distinct_count_ambiguous_name:
  "safe_distinct_count joined ''customer_id'' =
     (Inl (AnalysisException ''Reference is ambiguous: customer_id''), [])"
  by (simp add: safe_distinct_count_def select_def joined_def)

subsection \<open>Exit status\<close>












subsection \<open>Release of the session\<close>

text \<open>
  C8. Not every exit path releases the session. When the read succeeds and the job behind \<open>df.show(5)\<close> fails,
  the exception leaves \<open>main\<close> uncaught: the process ends with status 1 after
  \<open>printSchema\<close>, and \<open>spark.stop()\<close> was never called.
\<close>

theorem show_failure_leaves_session_open:
  "main (Inr failing_show_session) = \<lparr>exit_code = 1, trace = [Called PrintSchema]\<rparr> \<and>
   Stopped \<notin> set (trace (main (Inr failing_show_session)))"
proof -
  have "main (Inr failing_show_session) = \<lparr>exit_code = 1, trace = [Called PrintSchema]\<rparr>"
    by (simp add: main_def create_spark_session_def read_csv_handle_exceptions_def
        failing_show_session_def healthy_session_def after_read_def perform_def)
  then show ?thesis by simp
qed

text \<open>The exits the script handles itself do release the session first.\<close>

lemma anticipated_exits_stop_the_session:
  "Stopped \<in> set (trace (main (Inr missing_path_session))) \<and>
   Stopped \<in> set (trace (main (Inr stopped_session))) \<and>
   Stopped \<in> set (trace (main (Inr unreadable_session)))"
  by (simp add: main_def create_spark_session_def read_csv_handle_exceptions_def
      missing_path_session_def stopped_session_def unreadable_session_def healthy_session_def)

section \<open>Properties of the embedded-database example\<close>






text \<open>A \<open>movie\<close> table that does have two columns makes the script fail.\<close>

lemma two_column_table_refuses_the_row:
  "\<exists>e. SQLite two_columns = Inl e"
  by (simp add: SQLite_def create_table_if_not_exists_def insert_values_def two_columns_def
      movie_row_def)

end
